theory Spec2Isabelle
  imports Main "HOL-Library.Log_Nat" "HOL-Library.Sublist"
begin

section \<open>Strings\<close>

text \<open>
  Log lines, file names and time strings are byte strings (\<^typ>\<open>string\<close>).  The
  character classes of the regular expressions of the source are read on ASCII:
  \<open>\d\<close> is one of the ten decimal digits, and \<open>\s\<close> (as well as the characters
  removed by \<open>str.strip\<close>) is one of the ASCII characters Python counts as white space:
  0x09 to 0x0D, 0x1C to 0x1F and the blank.  \<open>str.lower\<close> acts on the letters A to Z.
\<close>

definition is_digit :: "char \<Rightarrow> bool" where
  "is_digit c = (c \<in> set ''0123456789'')"

definition is_space :: "char \<Rightarrow> bool" where
  "is_space c =
     (c \<in> set [CHR '' '', CHR 0x09, CHR 0x0A, CHR 0x0B, CHR 0x0C, CHR 0x0D,
                 CHR 0x1C, CHR 0x1D, CHR 0x1E, CHR 0x1F])"

definition digit_val :: "char \<Rightarrow> nat" where
  "digit_val c = of_char c - 48"

text \<open>\<open>int(ds)\<close> for a run of decimal digits.\<close>

definition dec :: "string \<Rightarrow> nat" where
  "dec ds = foldl (\<lambda>n c. 10 * n + digit_val c) 0 ds"

definition digit_run :: "string \<Rightarrow> string \<times> string" where
  "digit_run s = (takeWhile is_digit s, dropWhile is_digit s)"

fun expect_char :: "char \<Rightarrow> string \<Rightarrow> string option" where
  "expect_char c [] = None"
| "expect_char c (x # xs) = (if x = c then Some xs else None)"

text \<open>\<open>needle in hay\<close> on strings is \<^const>\<open>sublist\<close>; \<open>hay.endswith(x)\<close> is \<^const>\<open>suffix\<close>.\<close>

definition lower_char :: "char \<Rightarrow> char" where
  "lower_char c =
     (if c \<in> set ''ABCDEFGHIJKLMNOPQRSTUVWXYZ'' then char_of (of_char c + (32::nat)) else c)"

definition lower :: "string \<Rightarrow> string" where
  "lower s = map lower_char s"

definition strip :: "string \<Rightarrow> string" where
  "strip s = rev (dropWhile is_space (rev (dropWhile is_space s)))"

text \<open>\<open>s.replace(old, '')\<close> for a non-empty \<open>old\<close>; the counter skips the rest of an occurrence.\<close>

fun remove_all :: "string \<Rightarrow> nat \<Rightarrow> string \<Rightarrow> string" where
  "remove_all old k [] = []"
| "remove_all old (Suc k) (c # cs) = remove_all old k cs"
| "remove_all old 0 (c # cs) =
     (if prefix old (c # cs) then remove_all old (length old - 1) cs
      else c # remove_all old 0 cs)"

subsection \<open>Regular expressions\<close>

text \<open>
  The regular expressions of the source are written with matchers in continuation
  style, which follow the backtracking search of Python's \<open>re\<close>: a matcher takes what to
  do with the rest of the string, and tries its alternatives in the order \<open>re\<close> does
  (greedy repetitions the longest first, lazy ones the shortest first).  \<open>None\<close> is
  no match.
\<close>

type_synonym 'a cont = "string \<Rightarrow> 'a option"

text \<open>A literal.\<close>

definition m_lit :: "string \<Rightarrow> 'a cont \<Rightarrow> 'a cont" where
  "m_lit l k s = (if prefix l s then k (drop (length l) s) else None)"

text \<open>\<open>(C+)\<close> for a character class \<open>C\<close>, greedy; the continuation receives the group.\<close>

fun try_lengths :: "nat \<Rightarrow> (string \<Rightarrow> 'a cont) \<Rightarrow> 'a cont" where
  "try_lengths 0 k s = None"
| "try_lengths (Suc n) k s =
     (case k (take (Suc n) s) (drop (Suc n) s) of
        Some r \<Rightarrow> Some r
      | None \<Rightarrow> try_lengths n k s)"

definition m_plus :: "(char \<Rightarrow> bool) \<Rightarrow> (string \<Rightarrow> 'a cont) \<Rightarrow> 'a cont" where
  "m_plus C k s = try_lengths (length (takeWhile C s)) k s"

text \<open>\<open>\d{n}\<close>.\<close>

definition m_digits_n :: "nat \<Rightarrow> 'a cont \<Rightarrow> 'a cont" where
  "m_digits_n n k s =
     (if n \<le> length s \<and> list_all is_digit (take n s) then k (drop n s) else None)"

text \<open>\<open>.*?\<close> and \<open>.*\<close>; the dot matches every character but the line feed.\<close>

fun m_dots_lazy :: "'a cont \<Rightarrow> 'a cont" where
  "m_dots_lazy k [] = k []"
| "m_dots_lazy k (c # cs) =
     (case k (c # cs) of
        Some r \<Rightarrow> Some r
      | None \<Rightarrow> if c = CHR 0x0A then None else m_dots_lazy k cs)"

fun m_dots_greedy :: "'a cont \<Rightarrow> 'a cont" where
  "m_dots_greedy k [] = k []"
| "m_dots_greedy k (c # cs) =
     (if c = CHR 0x0A then k (c # cs)
      else case m_dots_greedy k cs of
             Some r \<Rightarrow> Some r
           | None \<Rightarrow> k (c # cs))"

text \<open>\<open>re.search\<close>: the match at the leftmost position that has one.\<close>

fun re_search :: "'a cont \<Rightarrow> 'a cont" where
  "re_search m [] = m []"
| "re_search m (c # cs) =
     (case m (c # cs) of
        Some r \<Rightarrow> Some r
      | None \<Rightarrow> re_search m cs)"

text \<open>The end of a pattern, for a search that needs no group, and for \<open>match.group()\<close>.\<close>

definition m_end :: "unit cont" where
  "m_end s = Some ()"

definition m_rest :: "string cont" where
  "m_rest s = Some s"

definition k_group :: "string \<Rightarrow> string cont" where
  "k_group g s = Some g"

section \<open>Floating-point numbers\<close>

text \<open>
  A Python \<open>float\<close> is an IEEE 754 binary64 number.  Finite floats are modelled by the
  rationals they denote, and every operation that rounds is modelled by the exact
  operation followed by \<open>fl\<close>, rounding to the nearest float, ties to the even
  significand: 53 significant bits, and the fixed quantum \<open>2 powi -1074\<close> below
  \<open>2 powi -1022\<close>.  Results of magnitude \<open>2 powi 1024\<close> or more (infinities and
  \<open>OverflowError\<close>) are outside the model.
\<close>

definition round_half_even :: "rat \<Rightarrow> int" where
  "round_half_even q =
     (let f = \<lfloor>q\<rfloor>; r = q - of_int f
      in if r < 1 / 2 then f else if 1 / 2 < r then f + 1 else if even f then f else f + 1)"

text \<open>The integer part of the binary logarithm of a positive rational.\<close>

definition ilog2 :: "rat \<Rightarrow> int" where
  "ilog2 x =
     (let (p, q) = quotient_of x; d = bitlen p - bitlen q
      in if 2 powi d \<le> x then d else d - 1)"

definition fl :: "rat \<Rightarrow> rat" where
  "fl x =
     (if x = 0 then 0
      else let e = max (ilog2 \<bar>x\<bar>) (- 1022); u = 2 powi (e - 52)
           in of_int (round_half_even (x / u)) * u)"

text \<open>\<open>a / b\<close> on integers (true division, correctly rounded), for \<open>b \<noteq> 0\<close>.\<close>

definition int_truediv :: "int \<Rightarrow> int \<Rightarrow> rat" where
  "int_truediv a b = fl (of_int a / of_int b)"

text \<open>\<open>x * y\<close> on floats; an integer operand is converted first, which is \<open>fl\<close> too.\<close>

definition fmul :: "rat \<Rightarrow> rat \<Rightarrow> rat" where
  "fmul x y = fl (fl x * fl y)"

text \<open>
  \<open>statistics.mean\<close> of a non-empty list: the exact sum divided by the length, rounded
  once.  (For integer data with an integral mean Python returns that integer itself,
  which is the same number up to \<open>2 ^ 53\<close>.)
\<close>

definition mean :: "rat list \<Rightarrow> rat" where
  "mean xs = fl (sum_list xs / of_nat (length xs))"

section \<open>Instants and durations\<close>

text \<open>
  A naive \<open>datetime\<close> is modelled by its position on the proleptic Gregorian time
  line, in microseconds: day ordinal (0001-01-01 is day 1) times the length of a day,
  plus the time of day.  Python compares naive datetimes field by field, which is the
  order of these positions.  A \<open>timedelta\<close> is a number of microseconds.
\<close>

type_synonym datetime = int
type_synonym timedelta = int

datatype py_error = ValueError | OverflowError

definition us_per_second :: int where "us_per_second = 1000000"
definition us_per_hour :: int where "us_per_hour = 3600 * us_per_second"
definition us_per_day :: int where "us_per_day = 24 * us_per_hour"

definition MAXORDINAL :: int where "MAXORDINAL = 3652059"

definition is_leap :: "int \<Rightarrow> bool" where
  "is_leap y = (y mod 4 = 0 \<and> (y mod 100 \<noteq> 0 \<or> y mod 400 = 0))"

definition days_before_year :: "int \<Rightarrow> int" where
  "days_before_year year =
     (let y = year - 1 in y * 365 + y div 4 - y div 100 + y div 400)"

definition days_in_month :: "int \<Rightarrow> int \<Rightarrow> int" where
  "days_in_month year month =
     (if month = 2 \<and> is_leap year then 29
      else [31, 28, 31, 30, 31, 30, 31, 31, 30, 31, 30, 31] ! nat (month - 1))"

definition days_before_month :: "int \<Rightarrow> int \<Rightarrow> int" where
  "days_before_month year month =
     [0, 31, 59, 90, 120, 151, 181, 212, 243, 273, 304, 334] ! nat (month - 1)
       + (if month > 2 \<and> is_leap year then 1 else 0)"

definition ymd2ord :: "int \<Rightarrow> int \<Rightarrow> int \<Rightarrow> int" where
  "ymd2ord year month day = days_before_year year + days_before_month year month + day"

text \<open>The constructor \<open>datetime(y, m, d, H, M, S)\<close>: \<open>ValueError\<close> on a field out of range.\<close>

definition mk_datetime :: "int \<Rightarrow> int \<Rightarrow> int \<Rightarrow> int \<Rightarrow> int \<Rightarrow> int \<Rightarrow> datetime option" where
  "mk_datetime y m d H M S =
     (if 1 \<le> y \<and> y \<le> 9999 \<and> 1 \<le> m \<and> m \<le> 12 \<and> 1 \<le> d \<and> d \<le> days_in_month y m
         \<and> 0 \<le> H \<and> H \<le> 23 \<and> 0 \<le> M \<and> M \<le> 59 \<and> 0 \<le> S \<and> S \<le> 59
      then Some (ymd2ord y m d * us_per_day + H * us_per_hour + M * (60 * us_per_second)
                   + S * us_per_second)
      else None)"

text \<open>
  \<open>datetime + timedelta\<close>: \<open>OverflowError\<close> when the day of the sum leaves
  \<open>1 .. MAXORDINAL\<close>.
\<close>

definition dt_add :: "datetime \<Rightarrow> timedelta \<Rightarrow> py_error + datetime" where
  "dt_add t d =
     (let r = t + d; days = r div us_per_day
      in if 0 < days \<and> days \<le> MAXORDINAL then Inr r else Inl OverflowError)"

text \<open>
  \<open>timedelta(hours=h)\<close>: \<open>OverflowError\<close> when the normalised number of days exceeds
  999999999 in absolute value.
\<close>

definition timedelta_hours :: "int \<Rightarrow> py_error + timedelta" where
  "timedelta_hours h =
     (if \<bar>(h * us_per_hour) div us_per_day\<bar> > 999999999 then Inl OverflowError
      else Inr (h * us_per_hour))"

definition timedelta_days :: "int \<Rightarrow> py_error + timedelta" where
  "timedelta_days d =
     (if \<bar>d\<bar> > 999999999 then Inl OverflowError else Inr (d * us_per_day))"

subsection \<open>\<open>datetime.strptime(s, "%Y-%m-%d %H:%M:%S")\<close>\<close>

text \<open>
  The format is compiled to the regular expression
  \<^verbatim>\<open>(\d\d\d\d)-(1[0-2]|0[1-9]|[1-9])-(3[0-1]|[1-2]\d|0[1-9]|[1-9]| [1-9])\s+\<close>
  \<^verbatim>\<open>(2[0-3]|[0-1]\d|\d):([0-5]\d|\d):(6[0-1]|[0-5]\d|\d)\<close>,
  which must match the whole string; the fields then go through the \<open>datetime\<close>
  constructor.  Every numeric field is followed by a character that is not a digit (or
  by the end of the string), so a field is a maximal run of digits of an admitted
  length and value.  \<open>None\<close> stands for \<open>ValueError\<close>.
\<close>

definition num_field :: "nat list \<Rightarrow> nat \<Rightarrow> nat \<Rightarrow> string \<Rightarrow> (nat \<times> string) option" where
  "num_field lens lo hi s =
     (let (ds, rest) = digit_run s; v = dec ds
      in if length ds \<in> set lens \<and> lo \<le> v \<and> v \<le> hi then Some (v, rest) else None)"

definition day_field :: "string \<Rightarrow> (nat \<times> string) option" where
  "day_field s =
     (case s of
        [] \<Rightarrow> None
      | c # cs \<Rightarrow> if c = CHR '' '' then num_field [1] 1 9 cs else num_field [1, 2] 1 31 s)"

definition space_run :: "string \<Rightarrow> string option" where
  "space_run s = (if takeWhile is_space s = [] then None else Some (dropWhile is_space s))"

definition strptime :: "string \<Rightarrow> datetime option" where
  "strptime s =
     Option.bind (num_field [4] 0 9999 s) (\<lambda>(y, s1).
     Option.bind (expect_char CHR ''-'' s1) (\<lambda>s2.
     Option.bind (num_field [1, 2] 1 12 s2) (\<lambda>(m, s3).
     Option.bind (expect_char CHR ''-'' s3) (\<lambda>s4.
     Option.bind (day_field s4) (\<lambda>(d, s5).
     Option.bind (space_run s5) (\<lambda>s6.
     Option.bind (num_field [1, 2] 0 23 s6) (\<lambda>(H, s7).
     Option.bind (expect_char CHR '':'' s7) (\<lambda>s8.
     Option.bind (num_field [1, 2] 0 59 s8) (\<lambda>(M, s9).
     Option.bind (expect_char CHR '':'' s9) (\<lambda>s10.
     Option.bind (num_field [1, 2] 0 61 s10) (\<lambda>(S, s11).
       if s11 = [] then mk_datetime (int y) (int m) (int d) (int H) (int M) (int S)
       else None)))))))))))"

subsection \<open>Rendering\<close>

text \<open>The date of a day ordinal, as \<open>date.fromordinal\<close> computes it.\<close>

definition ord2ymd :: "int \<Rightarrow> int \<times> int \<times> int" where
  "ord2ymd ordinal =
     (let n0 = ordinal - 1;
          n400 = n0 div 146097; na = n0 mod 146097;
          n100 = na div 36524; nb = na mod 36524;
          n4 = nb div 1461; nc = nb mod 1461;
          n1 = nc div 365; n = nc mod 365;
          year = n400 * 400 + 1 + n100 * 100 + n4 * 4 + n1
      in if n1 = 4 \<or> n100 = 4 then (year - 1, 12, 31)
         else
           (let leapyear = (n1 = 3 \<and> (n4 \<noteq> 24 \<or> n100 = 3));
                month = (n + 50) div 32;
                preceding = [0, 31, 59, 90, 120, 151, 181, 212, 243, 273, 304, 334] ! nat (month - 1)
                              + (if month > 2 \<and> leapyear then 1 else 0)
            in if preceding > n
               then (let m = month - 1;
                         dim = (if m = 2 \<and> leapyear then 29
                                else [31, 28, 31, 30, 31, 30, 31, 31, 30, 31, 30, 31] ! nat (m - 1))
                     in (year, m, n - (preceding - dim) + 1))
               else (year, month, n - preceding + 1)))"

text \<open>
  Decimal rendering: a number below 100 with two digits, as \<open>%m\<close>, \<open>%d\<close>, \<open>%H\<close>, \<open>%M\<close> and
  \<open>%S\<close> render it, and a year from 1 to 9999 without padding, as the C library renders
  \<open>%Y\<close>.
\<close>

definition digit_char :: "nat \<Rightarrow> char" where
  "digit_char d = ''0123456789'' ! d"

definition pad2 :: "nat \<Rightarrow> string" where
  "pad2 n = [digit_char (n div 10), digit_char (n mod 10)]"

definition year_str :: "nat \<Rightarrow> string" where
  "year_str y =
     dropWhile (\<lambda>c. c = CHR ''0'')
       [digit_char (y div 1000), digit_char (y div 100 mod 10), digit_char (y div 10 mod 10),
        digit_char (y mod 10)]"

text \<open>\<open>strftime('%Y-%m-%d')\<close> of a day.\<close>

definition strftime_date :: "int \<Rightarrow> string" where
  "strftime_date ordinal =
     (case ord2ymd ordinal of
        (y, m, d) \<Rightarrow> year_str (nat y) @ ''-'' @ pad2 (nat m) @ ''-'' @ pad2 (nat d))"

text \<open>\<open>strftime("%Y-%m-%d %H:%M:%S")\<close> of an instant; the microseconds are not rendered.\<close>

definition strftime_datetime :: "datetime \<Rightarrow> string" where
  "strftime_datetime t =
     (let tod = t mod us_per_day
      in strftime_date (t div us_per_day) @ '' ''
         @ pad2 (nat (tod div us_per_hour)) @ '':''
         @ pad2 (nat (tod mod us_per_hour div (60 * us_per_second))) @ '':''
         @ pad2 (nat (tod mod (60 * us_per_second) div us_per_second)))"

section \<open>Time window resolver\<close>

record time_window =
  tw_start :: datetime
  tw_end :: datetime
  tw_start_str :: string
  tw_end_str :: string

text \<open>Truth value of an \<open>Optional[str]\<close>: \<open>None\<close> and the empty string are false.\<close>

fun truthy :: "string option \<Rightarrow> bool" where
  "truthy None = False"
| "truthy (Some s) = (s \<noteq> [])"

definition mk_window :: "datetime \<Rightarrow> datetime \<Rightarrow> time_window" where
  "mk_window start_dt end_dt =
     \<lparr>tw_start = start_dt, tw_end = end_dt,
      tw_start_str = strftime_datetime start_dt, tw_end_str = strftime_datetime end_dt\<rparr>"

text \<open>\<open>_parse_time_window\<close>; \<open>now\<close> is the reading of the clock by \<open>datetime.now()\<close>.\<close>

definition parse_time_window :: "datetime \<Rightarrow> string option \<Rightarrow> string option \<Rightarrow> py_error + time_window" where
  "parse_time_window now start_time end_time =
     (if truthy start_time \<and> truthy end_time then
        (case (strptime (the start_time), strptime (the end_time)) of
           (Some start_dt, Some end_dt) \<Rightarrow> Inr (mk_window start_dt end_dt)
         | _ \<Rightarrow> Inl ValueError)
      else if truthy start_time then
        (case strptime (the start_time) of
           None \<Rightarrow> Inl ValueError
         | Some start_dt \<Rightarrow>
             map_sum id (\<lambda>end_dt. mk_window start_dt end_dt) (dt_add start_dt us_per_hour))
      else
        map_sum id (\<lambda>start_dt. mk_window start_dt now) (dt_add now (- us_per_hour)))"

section \<open>Log line parser\<close>

text \<open>
  An event is a dictionary discriminated by its \<open>type\<close> entry; each type has its own
  fields next to \<open>timestamp\<close>, \<open>node\<close> and \<open>line\<close>.  The constructors are the event types
  that \<open>_parse_log_line\<close> produces, with the type-specific fields as arguments.
\<close>

datatype event_body =
    Handler_usage int
  | Wal_slow_sync int
  | Wal_rolling
  | Wal_size int
  | Gc_pause int
  | Gc_event
  | Heap_usage int int
  | Memory_warning
  | Compaction_start
  | Compaction_complete int
  | Major_compaction
  | Region_split
  | Split_complete
  | Flush_start
  | Flush_complete int
  | Queue_size int
  | Queue_full
  | Network_timeout
  | Connection_reset
  | Table_create
  | Table_delete
  | Table_access string
  | Balancer_start
  | Region_move
  | Client_connection string
  | Client_disconnect
  | Slow_query int
  | Response_time int

text \<open>The \<open>type\<close> entry of an event.\<close>

fun type_of :: "event_body \<Rightarrow> string" where
  "type_of (Handler_usage v) = ''handler_usage''"
| "type_of (Wal_slow_sync v) = ''wal_slow_sync''"
| "type_of Wal_rolling = ''wal_rolling''"
| "type_of (Wal_size v) = ''wal_size''"
| "type_of (Gc_pause v) = ''gc_pause''"
| "type_of Gc_event = ''gc_event''"
| "type_of (Heap_usage u t) = ''heap_usage''"
| "type_of Memory_warning = ''memory_warning''"
| "type_of Compaction_start = ''compaction_start''"
| "type_of (Compaction_complete v) = ''compaction_complete''"
| "type_of Major_compaction = ''major_compaction''"
| "type_of Region_split = ''region_split''"
| "type_of Split_complete = ''split_complete''"
| "type_of Flush_start = ''flush_start''"
| "type_of (Flush_complete v) = ''flush_complete''"
| "type_of (Queue_size v) = ''queue_size''"
| "type_of Queue_full = ''queue_full''"
| "type_of Network_timeout = ''network_timeout''"
| "type_of Connection_reset = ''connection_reset''"
| "type_of Table_create = ''table_create''"
| "type_of Table_delete = ''table_delete''"
| "type_of (Table_access t) = ''table_access''"
| "type_of Balancer_start = ''balancer_start''"
| "type_of Region_move = ''region_move''"
| "type_of (Client_connection ip) = ''client_connection''"
| "type_of Client_disconnect = ''client_disconnect''"
| "type_of (Slow_query v) = ''slow_query''"
| "type_of (Response_time v) = ''response_time''"

record event =
  ev_timestamp :: datetime
  ev_node :: string
  ev_body :: event_body
  ev_line :: string

record error_record =
  er_timestamp :: datetime
  er_node :: string
  er_type :: string
  er_line :: string

subsection \<open>\<open>_classify_error\<close>\<close>

definition classify_error :: "string \<Rightarrow> string" where
  "classify_error line =
     (let line_lower = lower line in
      if sublist ''timed out'' line \<or> sublist ''timeout'' line_lower then ''timeout''
      else if sublist ''outofmemoryerror'' line_lower \<or> sublist ''out of memory'' line_lower
        then ''memory''
      else if list_ex (\<lambda>net_err. sublist net_err line_lower) [''connection'', ''socket'', ''network'']
        then ''network''
      else if list_ex (\<lambda>io_err. sublist io_err line_lower) [''ioexception'', ''disk'', ''file'']
        then ''io''
      else if list_ex (\<lambda>perm_err. sublist perm_err line_lower)
                [''permission'', ''access denied'', ''unauthorized'']
        then ''permission''
      else if list_ex (\<lambda>conf_err. sublist conf_err line_lower)
                [''configuration'', ''config'', ''property'']
        then ''configuration''
      else if list_ex (\<lambda>data_err. sublist data_err line_lower) [''corrupt'', ''checksum'', ''data'']
        then ''data''
      else if list_ex (\<lambda>res_err. sublist res_err line_lower) [''resource'', ''quota'', ''limit'']
        then ''resource''
      else if sublist ''FATAL'' line then ''fatal''
      else if sublist ''ERROR'' line then ''error''
      else if sublist ''WARN'' line then ''warning''
      else if sublist ''Exception'' line then ''exception''
      else ''unknown'')"



subsection \<open>The detectors of \<open>_parse_log_line\<close>\<close>

text \<open>\<open>not focus_areas or topic in focus_areas\<close>.\<close>

fun enabled :: "string list option \<Rightarrow> string \<Rightarrow> bool" where
  "enabled None topic = True"
| "enabled (Some fa) topic = (fa = [] \<or> topic \<in> set fa)"

text \<open>An event with the integer of the first group, when the pattern is found.\<close>

definition value_event :: "(int \<Rightarrow> event_body) \<Rightarrow> string option \<Rightarrow> event_body list" where
  "value_event mk g = (case g of None \<Rightarrow> [] | Some ds \<Rightarrow> [mk (int (dec ds))])"

definition flag_event :: "event_body \<Rightarrow> bool \<Rightarrow> event_body list" where
  "flag_event b found = (if found then [b] else [])"

text \<open>\<open><literal>.*?(\d+)ms\<close>.\<close>

definition lazy_ms :: "string \<Rightarrow> string \<Rightarrow> string option" where
  "lazy_ms l line =
     re_search (m_lit l (m_dots_lazy (m_plus is_digit (\<lambda>g. m_lit ''ms'' (k_group g))))) line"

definition handler_detector :: "string \<Rightarrow> event_body list" where
  "handler_detector line =
     value_event Handler_usage (re_search (m_lit ''handler='' (m_plus is_digit k_group)) line)"

definition wal_detector :: "string \<Rightarrow> event_body list" where
  "wal_detector line =
     value_event Wal_slow_sync
       (re_search (m_lit ''Slow sync cost: '' (m_plus is_digit (\<lambda>g. m_lit '' ms'' (k_group g)))) line)
     @ flag_event Wal_rolling (sublist ''Rolling'' line \<and> sublist ''WAL'' line)
     @ value_event Wal_size
         (re_search (m_lit ''WAL'' (m_dots_greedy (m_lit ''size='' (m_plus is_digit k_group)))) line)"

definition gc_detector :: "string \<Rightarrow> event_body list" where
  "gc_detector line =
     value_event Gc_pause
       (re_search (m_lit ''GC pause '' (m_plus is_digit (\<lambda>g. m_lit ''ms'' (k_group g)))) line)
     @ flag_event Gc_event
         (sublist ''GC'' line
          \<and> list_ex (\<lambda>gc_type. sublist gc_type line) [''ParNew'', ''CMS'', ''G1'', ''Full GC''])"

definition memory_detector :: "string \<Rightarrow> event_body list" where
  "memory_detector line =
     (case re_search
             (m_lit ''heap'' (m_dots_lazy (m_plus is_digit (\<lambda>u. m_lit ''M/''
                (m_plus is_digit (\<lambda>t. m_lit ''M'' (\<lambda>r. Some (u, t)))))))) line of
        None \<Rightarrow> []
      | Some (u, t) \<Rightarrow> [Heap_usage (int (dec u)) (int (dec t))])
     @ flag_event Memory_warning
         (sublist ''OutOfMemoryError'' line \<or> sublist ''low memory'' (lower line))"

definition compaction_detector :: "string \<Rightarrow> event_body list" where
  "compaction_detector line =
     flag_event Compaction_start (sublist ''Starting compaction'' line)
     @ value_event Compaction_complete (lazy_ms ''Completed compaction'' line)
     @ flag_event Major_compaction (sublist ''major compaction'' (lower line))"

definition split_detector :: "string \<Rightarrow> event_body list" where
  "split_detector line =
     flag_event Region_split (sublist ''Splitting'' line \<and> sublist ''region'' (lower line))
     @ flag_event Split_complete (sublist ''Split'' line \<and> sublist ''completed'' (lower line))"

definition flush_detector :: "string \<Rightarrow> event_body list" where
  "flush_detector line =
     flag_event Flush_start (sublist ''Flushing'' line)
     @ value_event Flush_complete (lazy_ms ''Flushed'' line)"

definition queue_detector :: "string \<Rightarrow> event_body list" where
  "queue_detector line =
     value_event Queue_size (re_search (m_lit ''queue='' (m_plus is_digit k_group)) line)
     @ flag_event Queue_full
         (sublist ''queue full'' (lower line) \<or> sublist ''queue overflow'' (lower line))"

definition network_detector :: "string \<Rightarrow> event_body list" where
  "network_detector line =
     flag_event Network_timeout
       (sublist ''SocketTimeoutException'' line \<or> sublist ''Connection timeout'' line)
     @ flag_event Connection_reset
         (sublist ''Connection reset'' line \<or> sublist ''Connection refused'' line)"

definition table_detector :: "string \<Rightarrow> event_body list" where
  "table_detector line =
     flag_event Table_create (sublist ''Creating table'' line)
     @ flag_event Table_delete (sublist ''Deleting table'' line)
     @ (case re_search
               (m_lit ''table='' (m_plus (\<lambda>c. c \<noteq> CHR '','' \<and> \<not> is_space c) k_group)) line of
          None \<Rightarrow> []
        | Some table_name \<Rightarrow> [Table_access table_name])"

definition balancer_detector :: "string \<Rightarrow> event_body list" where
  "balancer_detector line =
     flag_event Balancer_start (sublist ''Balancer'' line \<and> sublist ''start'' (lower line))
     @ flag_event Region_move (sublist ''Moving region'' line)"

definition client_detector :: "string \<Rightarrow> event_body list" where
  "client_detector line =
     (case re_search
             (m_lit ''connection: '' (m_plus (\<lambda>c. is_digit c \<or> c = CHR ''.'')
                (\<lambda>ip. m_lit '':'' (m_plus is_digit (\<lambda>port. k_group ip))))) line of
        None \<Rightarrow> []
      | Some client_ip \<Rightarrow> [Client_connection client_ip])
     @ flag_event Client_disconnect
         (sublist ''client disconnect'' (lower line) \<or> sublist ''connection closed'' (lower line))"

definition performance_detector :: "string \<Rightarrow> event_body list" where
  "performance_detector line =
     value_event Slow_query (lazy_ms ''Slow query'' line)
     @ value_event Response_time (lazy_ms ''response time'' line)"

text \<open>The keywords that make a line an error line.\<close>

definition error_matched :: "string \<Rightarrow> bool" where
  "error_matched line =
     list_ex (\<lambda>keyword. sublist keyword line)
       [''ERROR'', ''Exception'', ''timed out'', ''FATAL'', ''WARN'']"

text \<open>The topics and their detectors, in the order of the source.\<close>

definition detectors :: "(string \<times> (string \<Rightarrow> event_body list)) list" where
  "detectors =
     [(''handler'', handler_detector), (''wal'', wal_detector), (''gc'', gc_detector),
      (''memory'', memory_detector), (''compaction'', compaction_detector),
      (''split'', split_detector), (''flush'', flush_detector), (''queue'', queue_detector),
      (''network'', network_detector), (''table'', table_detector),
      (''balancer'', balancer_detector), (''clients'', client_detector),
      (''performance'', performance_detector)]"

text \<open>
  \<open>_parse_log_line\<close>: the events and the error records that one line appends to
  \<open>log_data['events']\<close> and \<open>log_data['errors']\<close>.
\<close>

definition parse_log_line ::
  "string \<Rightarrow> datetime \<Rightarrow> string \<Rightarrow> string list option \<Rightarrow> event list \<times> error_record list" where
  "parse_log_line line log_time node_name focus_areas =
     (map (\<lambda>b. \<lparr>ev_timestamp = log_time, ev_node = node_name, ev_body = b, ev_line = strip line\<rparr>)
        (concat (map (\<lambda>(topic, detect). if enabled focus_areas topic then detect line else [])
                   detectors)),
      if enabled focus_areas ''errors'' \<and> error_matched line
      then [\<lparr>er_timestamp = log_time, er_node = node_name, er_type = classify_error line,
              er_line = strip line\<rparr>]
      else [])"

text \<open>
  \<open>log_data\<close> as \<open>_parse_log_files\<close> returns it.  \<open>nodes\<close> is the list made from the set
  of node names.
\<close>

record log_data =
  total_entries :: nat
  events :: "event list"
  errors :: "error_record list"
  nodes :: "string list"

section \<open>File catalog and selector\<close>

text \<open>
  The file system as the log pipeline sees it: whether a path exists, the walk of a
  directory tree (for each directory its path and the names of its files, in the order
  in which the system enumerates them), and the text of a file as the list of its
  lines, each with its line feed, together with whether reading reaches the end of the
  file (\<open>False\<close>: an exception is raised after these lines, at once when the file
  cannot be opened).  Plain and compressed files differ in how they are opened only.
\<close>

record filesystem =
  fs_exists :: "string \<Rightarrow> bool"
  fs_walk :: "string \<Rightarrow> (string \<times> string list) list"
  fs_read :: "string \<Rightarrow> string list \<times> bool"

text \<open>The accesses to the file system, in the order in which they are made.\<close>

datatype io_event = Path_exists string | Walk string | Open_file string

definition basename :: "string \<Rightarrow> string" where
  "basename path = rev (takeWhile (\<lambda>c. c \<noteq> CHR ''/'') (rev path))"

definition path_join :: "string \<Rightarrow> string \<Rightarrow> string" where
  "path_join dirpath file =
     (if prefix ''/'' file then file
      else if dirpath = [] \<or> suffix ''/'' dirpath then dirpath @ file
      else dirpath @ ''/'' @ file)"

text \<open>\<^verbatim>\<open>\d{4}-\d{2}-\d{2}-\d{2}\<close> and \<^verbatim>\<open>\d{4}-\d{2}-\d{2}\<close>.\<close>

definition date_pattern :: "unit cont" where
  "date_pattern =
     m_digits_n 4 (m_lit ''-'' (m_digits_n 2 (m_lit ''-'' (m_digits_n 2 m_end))))"

definition date_hour_pattern :: "unit cont" where
  "date_hour_pattern =
     m_digits_n 4 (m_lit ''-'' (m_digits_n 2 (m_lit ''-'' (m_digits_n 2
       (m_lit ''-'' (m_digits_n 2 m_end))))))"

definition is_log_file :: "string \<Rightarrow> bool" where
  "is_log_file file =
     (suffix ''.log'' file \<or> suffix ''.out'' file \<or> suffix ''.gz'' file
      \<or> re_search date_hour_pattern file \<noteq> None)"

text \<open>\<open>_discover_log_files\<close>.\<close>

definition discover_log_files :: "filesystem \<Rightarrow> string \<Rightarrow> io_event list \<times> string list" where
  "discover_log_files fs log_dir =
     (if \<not> fs_exists fs log_dir then ([Path_exists log_dir], [])
      else
        ([Path_exists log_dir, Walk log_dir],
         concat (map (\<lambda>(dirpath, files). map (path_join dirpath) (filter is_log_file files))
                   (fs_walk fs log_dir))))"

text \<open>
  \<open>_extract_node_name\<close>: the first match of \<^verbatim>\<open>ip-\d+-\d+-\d+-\d+\<close> in the file name,
  or else the file name without its occurrences of \<open>.log\<close> and then of \<open>.out\<close>.
\<close>

definition node_pattern :: "string cont" where
  "node_pattern =
     m_lit ''ip-'' (m_plus is_digit (\<lambda>a. m_lit ''-'' (m_plus is_digit (\<lambda>b. m_lit ''-''
       (m_plus is_digit (\<lambda>c. m_lit ''-'' (m_plus is_digit (\<lambda>d.
          k_group (''ip-'' @ a @ ''-'' @ b @ ''-'' @ c @ ''-'' @ d)))))))))"

definition extract_node_name :: "string \<Rightarrow> string" where
  "extract_node_name file_path =
     (let filename = basename file_path in
      case re_search node_pattern filename of
        Some ip_match \<Rightarrow> ip_match
      | None \<Rightarrow> remove_all ''.out'' 0 (remove_all ''.log'' 0 filename))"

subsection \<open>The dates of a window\<close>

text \<open>
  The loop of \<open>_extract_target_dates\<close>: it renders the current day and steps to the next
  one, which raises \<open>OverflowError\<close> after the last day of the calendar.
\<close>

function target_dates_from :: "int \<Rightarrow> int \<Rightarrow> py_error + string list" where
  "target_dates_from current_date end_date =
     (if current_date \<le> end_date then
        (if current_date + 1 > MAXORDINAL then Inl OverflowError
         else map_sum id ((#) (strftime_date current_date))
                (target_dates_from (current_date + 1) end_date))
      else Inr [])"
  by pat_completeness auto
termination
  by (relation "measure (\<lambda>(c, e). nat (e + 1 - c))") auto

definition extract_target_dates :: "time_window \<Rightarrow> py_error + string list" where
  "extract_target_dates tw =
     target_dates_from (tw_start tw div us_per_day) (tw_end tw div us_per_day)"

text \<open>\<open>_is_file_relevant_for_dates\<close>.\<close>

definition is_file_relevant_for_dates :: "string \<Rightarrow> string list \<Rightarrow> bool" where
  "is_file_relevant_for_dates file_path target_dates =
     (let filename = basename file_path in
      if list_ex (\<lambda>date_str. sublist date_str filename) target_dates then True
      else if suffix ''.log'' filename \<and> re_search date_pattern filename = None then True
      else if suffix ''.out'' filename
        then list_ex (\<lambda>date_str. sublist date_str filename) target_dates
      else False)"

text \<open>\<open>_filter_relevant_files\<close>; an empty list of target nodes is no filter.\<close>

definition filter_relevant_files ::
  "string list \<Rightarrow> time_window \<Rightarrow> string list option \<Rightarrow> py_error + string list" where
  "filter_relevant_files log_files tw target_nodes =
     map_sum id
       (\<lambda>target_dates.
          let date_filtered_files =
                filter (\<lambda>log_file. is_file_relevant_for_dates log_file target_dates) log_files
          in case target_nodes of
               None \<Rightarrow> date_filtered_files
             | Some tn \<Rightarrow>
                 if tn = [] then date_filtered_files
                 else filter (\<lambda>log_file. extract_node_name log_file \<in> set tn) date_filtered_files)
       (extract_target_dates tw)"

section \<open>Log file parser\<close>

text \<open>
  \<open>log_data\<close> while the files are parsed; \<open>nodes\<close> is a set, held as the list of its
  elements without repetition.
\<close>

record parse_state =
  ps_total_entries :: nat
  ps_events :: "event list"
  ps_errors :: "error_record list"
  ps_nodes :: "string list"

text \<open>\<^verbatim>\<open>(\d{4}-\d{2}-\d{2} \d{2}:\d{2}:\d{2}),\d{3}\<close>; the group is 19 characters long.\<close>

definition timestamp_pattern :: "string cont" where
  "timestamp_pattern s =
     map_option (\<lambda>u. take 19 s)
       (m_digits_n 4 (m_lit ''-'' (m_digits_n 2 (m_lit ''-'' (m_digits_n 2 (m_lit '' ''
          (m_digits_n 2 (m_lit '':'' (m_digits_n 2 (m_lit '':'' (m_digits_n 2 (m_lit '',''
             (m_digits_n 3 m_end)))))))))))) s)"

text \<open>
  The time of a line: \<open>None\<close> when the pattern is not found in the line or when its
  first match is not a date and time (both make the loop go on to the next line).
\<close>

definition line_time :: "string \<Rightarrow> datetime option" where
  "line_time line =
     (case re_search timestamp_pattern line of
        None \<Rightarrow> None
      | Some g \<Rightarrow> strptime g)"

text \<open>\<open>time_window['start'] <= log_time <= time_window['end']\<close>.\<close>

definition in_window :: "time_window \<Rightarrow> datetime \<Rightarrow> bool" where
  "in_window tw t = (tw_start tw \<le> t \<and> t \<le> tw_end tw)"

text \<open>The body of the loop over the lines of a file.\<close>

definition parse_line_step ::
  "time_window \<Rightarrow> string list option \<Rightarrow> string \<Rightarrow> parse_state \<Rightarrow> string \<Rightarrow> parse_state" where
  "parse_line_step tw focus_areas node_name st line =
     (case line_time line of
        None \<Rightarrow> st
      | Some log_time \<Rightarrow>
          if \<not> in_window tw log_time then st
          else
            (let (evs, errs) = parse_log_line line log_time node_name focus_areas
             in st\<lparr>ps_total_entries := ps_total_entries st + 1,
                    ps_events := ps_events st @ evs,
                    ps_errors := ps_errors st @ errs\<rparr>))"

text \<open>
  The body of the loop over the files.  The lines read before a failure have been
  processed when the exception is caught, and what they added stays.  The counts of
  processed and failed files are printed only.
\<close>

definition parse_file_step ::
  "filesystem \<Rightarrow> time_window \<Rightarrow> string list option \<Rightarrow> parse_state \<Rightarrow> string \<Rightarrow> parse_state" where
  "parse_file_step fs tw focus_areas st log_file =
     (let node_name = extract_node_name log_file
      in foldl (parse_line_step tw focus_areas node_name)
           (st\<lparr>ps_nodes := List.insert node_name (ps_nodes st)\<rparr>)
           (fst (fs_read fs log_file)))"

text \<open>
  \<open>_parse_log_files\<close>.  \<open>set_order\<close> is the order in which Python iterates over the set
  of nodes when \<open>list\<close> makes a list of it; it depends on the hashes of the strings.
\<close>

definition parse_log_files ::
  "filesystem \<Rightarrow> (string list \<Rightarrow> string list) \<Rightarrow> string list \<Rightarrow> time_window
     \<Rightarrow> string list option \<Rightarrow> io_event list \<times> log_data" where
  "parse_log_files fs set_order log_files tw focus_areas =
     (let st = foldl (parse_file_step fs tw focus_areas)
                 \<lparr>ps_total_entries = 0, ps_events = [], ps_errors = [], ps_nodes = []\<rparr> log_files
      in (map Open_file log_files,
          \<lparr>total_entries = ps_total_entries st, events = ps_events st, errors = ps_errors st,
           nodes = set_order (ps_nodes st)\<rparr>))"

section \<open>Log aggregator and anomaly detector\<close>

text \<open>
  Dictionaries keep their keys in the order of first insertion; they are association
  lists in that order.
\<close>

type_synonym ('k, 'v) dict = "('k \<times> 'v) list"

text \<open>\<open>if k not in d: d[k] = []\<close> followed by \<open>d[k].append(v)\<close>.\<close>

fun dict_append :: "('k, 'v list) dict \<Rightarrow> 'k \<Rightarrow> 'v \<Rightarrow> ('k, 'v list) dict" where
  "dict_append [] k v = [(k, [v])]"
| "dict_append ((k', vs) # d) k v =
     (if k' = k then (k', vs @ [v]) # d else (k', vs) # dict_append d k v)"

text \<open>\<open>d[k] = d.get(k, 0) + 1\<close>.\<close>

fun dict_incr :: "('k, nat) dict \<Rightarrow> 'k \<Rightarrow> ('k, nat) dict" where
  "dict_incr [] k = [(k, 1)]"
| "dict_incr ((k', n) # d) k = (if k' = k then (k', n + 1) # d else (k', n) # dict_incr d k)"

text \<open>\<open>if k not in d: d[k] = {}\<close> followed by \<open>d[k][t] = d[k].get(t, 0) + 1\<close>.\<close>

fun dict_incr2 :: "('k, ('t, nat) dict) dict \<Rightarrow> 'k \<Rightarrow> 't \<Rightarrow> ('k, ('t, nat) dict) dict" where
  "dict_incr2 [] k t = [(k, [(t, 1)])]"
| "dict_incr2 ((k', c) # d) k t =
     (if k' = k then (k', dict_incr c t) # d else (k', c) # dict_incr2 d k t)"

text \<open>The \<open>value\<close> entry of an event, for the event types that have one.\<close>

fun ev_value :: "event_body \<Rightarrow> int option" where
  "ev_value (Handler_usage v) = Some v"
| "ev_value (Wal_slow_sync v) = Some v"
| "ev_value (Wal_size v) = Some v"
| "ev_value (Gc_pause v) = Some v"
| "ev_value (Compaction_complete v) = Some v"
| "ev_value (Flush_complete v) = Some v"
| "ev_value (Queue_size v) = Some v"
| "ev_value (Slow_query v) = Some v"
| "ev_value (Response_time v) = Some v"
| "ev_value _ = None"

definition events_of_type :: "string \<Rightarrow> event list \<Rightarrow> event list" where
  "events_of_type t evs = filter (\<lambda>e. type_of (ev_body e) = t) evs"

text \<open>
  The loop that fills \<open>handler_stats\<close>.  Every \<open>handler_usage\<close> event has a \<open>value\<close>, so
  \<open>event['value']\<close> is defined on the events the loop runs over.
\<close>

definition handler_stats_of :: "event list \<Rightarrow> (string, int list) dict" where
  "handler_stats_of handler_events =
     foldl (\<lambda>stats event.
              case ev_value (ev_body event) of
                Some v \<Rightarrow> dict_append stats (ev_node event) v
              | None \<Rightarrow> stats)
       [] handler_events"

text \<open>
  Anomalies and performance issues of the log pipeline.  The \<open>description\<close> entries,
  which render the other entries as text, are left out.
\<close>

datatype log_anomaly =
    Handler_saturation (an_node: string) (an_severity: string) (an_max_value: int)
      (an_avg_value: rat)
  | High_error_rate (an_severity: string) (an_error_count: nat) (an_error_rate: rat)


record performance_issue =
  pi_type :: string
  pi_severity :: string
  pi_slow_sync_count :: nat
  pi_avg_sync_time :: rat

text \<open>The body of the loop over \<open>handler_stats.items()\<close>.\<close>

definition handler_anomaly :: "string \<times> int list \<Rightarrow> log_anomaly list" where
  "handler_anomaly item =
     (case item of
        (node, []) \<Rightarrow> []
      | (node, v # vs) \<Rightarrow>
          (let max_handler = fold max vs v;
               avg_handler = mean (map of_int (v # vs))
           in if max_handler \<ge> 58
              then [Handler_saturation node (if max_handler \<ge> 60 then ''critical'' else ''high'')
                      max_handler avg_handler]
              else []))"

definition wal_issues :: "event list \<Rightarrow> performance_issue list" where
  "wal_issues evs =
     (let wal_events = events_of_type ''wal_slow_sync'' evs in
      if wal_events = [] then []
      else
        (let slow_syncs = length wal_events;
             avg_sync_time = mean (map (\<lambda>e. of_int (the (ev_value (ev_body e)))) wal_events)
         in if avg_sync_time > 100
            then [\<lparr>pi_type = ''wal_performance'', pi_severity = ''high'',
                    pi_slow_sync_count = slow_syncs, pi_avg_sync_time = avg_sync_time\<rparr>]
            else []))"

text \<open>\<open>len(errors) / total_entries * 100 if total_entries > 0 else 0\<close>.\<close>

definition error_rate_of :: "nat \<Rightarrow> nat \<Rightarrow> rat" where
  "error_rate_of n_errors n_entries =
     (if n_entries > 0 then fmul (int_truediv (int n_errors) (int n_entries)) 100 else 0)"

definition error_rate_anomaly :: "error_record list \<Rightarrow> nat \<Rightarrow> log_anomaly list" where
  "error_rate_anomaly errs n_entries =
     (if errs = [] then []
      else
        (let error_rate = error_rate_of (length errs) n_entries
         in if error_rate > 5 then [High_error_rate ''high'' (length errs) error_rate] else []))"

subsection \<open>Summaries\<close>

text \<open>The hour of the day of an instant, the key \<open>strftime('%H:00')\<close> of the distribution.\<close>

definition hour_of :: "datetime \<Rightarrow> nat" where
  "hour_of t = nat ((t mod us_per_day) div us_per_hour)"

text \<open>\<open>sorted(d.items(), key=lambda x: x[1], reverse=True)[:n]\<close>; the sort is stable.\<close>

definition top_items :: "nat \<Rightarrow> (string, nat) dict \<Rightarrow> (string \<times> nat) list" where
  "top_items n d = take n (sort_key (\<lambda>x. - int (snd x)) d)"

text \<open>
  \<open>_summarize_events\<close>: with no event the summary has the entries \<open>total\<close> and \<open>types\<close>
  only.  Every event has a timestamp, so each one is counted in the distribution.
\<close>

record events_summary =
  es_total :: nat
  es_types :: "(string, nat) dict"
  es_by_node :: "(string, (string, nat) dict) dict option"
  es_time_distribution :: "(nat, nat) dict option"
  es_top_event_types :: "(string \<times> nat) list option"

definition summarize_events :: "event list \<Rightarrow> events_summary" where
  "summarize_events evs =
     (if evs = [] then
        \<lparr>es_total = 0, es_types = [], es_by_node = None, es_time_distribution = None,
         es_top_event_types = None\<rparr>
      else
        (let event_types = foldl (\<lambda>d e. dict_incr d (type_of (ev_body e))) [] evs;
             node_stats = foldl (\<lambda>d e. dict_incr2 d (ev_node e) (type_of (ev_body e))) [] evs;
             time_distribution = foldl (\<lambda>d e. dict_incr d (hour_of (ev_timestamp e))) [] evs
         in \<lparr>es_total = length evs, es_types = event_types, es_by_node = Some node_stats,
              es_time_distribution = Some time_distribution,
              es_top_event_types = Some (top_items 5 event_types)\<rparr>))"

record error_summary =
  ers_total :: nat
  ers_types :: "(string, nat) dict"
  ers_by_node :: "(string, (string, nat) dict) dict option"
  ers_top_error_types :: "(string \<times> nat) list option"

definition summarize_errors :: "error_record list \<Rightarrow> error_summary" where
  "summarize_errors errs =
     (if errs = [] then
        \<lparr>ers_total = 0, ers_types = [], ers_by_node = None, ers_top_error_types = None\<rparr>
      else
        (let error_types = foldl (\<lambda>d e. dict_incr d (er_type e)) [] errs;
             node_stats = foldl (\<lambda>d e. dict_incr2 d (er_node e) (er_type e)) [] errs
         in \<lparr>ers_total = length errs, ers_types = error_types, ers_by_node = Some node_stats,
              ers_top_error_types = Some (top_items 3 error_types)\<rparr>))"

text \<open>
  \<open>_generate_analysis_summary\<close> joins five counts into one line of text; the digest
  is modelled by the five counts.
\<close>

record digest =
  dg_entries :: nat
  dg_nodes :: nat
  dg_anomalies :: nat
  dg_issues :: nat
  dg_errors :: nat

definition generate_analysis_summary ::
  "log_data \<Rightarrow> log_anomaly list \<Rightarrow> performance_issue list \<Rightarrow> digest" where
  "generate_analysis_summary ld anoms issues =
     \<lparr>dg_entries = total_entries ld, dg_nodes = length (nodes ld), dg_anomalies = length anoms,
      dg_issues = length issues, dg_errors = length (errors ld)\<rparr>"

subsection \<open>\<open>_analyze_parsed_logs\<close>\<close>

record analysis_result =
  ar_events_summary :: events_summary
  ar_anomalies :: "log_anomaly list"
  ar_performance_issues :: "performance_issue list"
  ar_error_summary :: error_summary
  ar_handler_stats :: "(string, int list) dict"
  ar_summary :: digest

definition analyze_parsed_logs :: "log_data \<Rightarrow> analysis_result" where
  "analyze_parsed_logs ld =
     (let handler_events = events_of_type ''handler_usage'' (events ld);
          handler_stats = handler_stats_of handler_events;
          anomalies = concat (map handler_anomaly handler_stats)
                        @ error_rate_anomaly (errors ld) (total_entries ld);
          performance_issues = wal_issues (events ld)
      in \<lparr>ar_events_summary = summarize_events (events ld),
           ar_anomalies = anomalies,
           ar_performance_issues = performance_issues,
           ar_error_summary = summarize_errors (errors ld),
           ar_handler_stats = handler_stats,
           ar_summary = generate_analysis_summary ld anomalies performance_issues\<rparr>)"

section \<open>The log analysis call\<close>

record log_result =
  lr_analysis_window :: time_window
  lr_files_processed :: nat
  lr_total_entries :: nat
  lr_events_summary :: events_summary
  lr_anomalies :: "log_anomaly list"
  lr_performance_issues :: "performance_issue list"
  lr_error_summary :: error_summary
  lr_summary :: digest

text \<open>
  \<open>analyze_hbase_logs\<close>, in the order of its numbered steps: discover the files, resolve
  the window, filter the files, parse them, analyse.  The result is the list of the
  accesses to the file system that were made, and the returned document or the
  exception that ended the call.  Printing to the console is not modelled.
\<close>

definition analyze_hbase_logs ::
  "filesystem \<Rightarrow> datetime \<Rightarrow> (string list \<Rightarrow> string list) \<Rightarrow> string \<Rightarrow> string option
     \<Rightarrow> string option \<Rightarrow> string list option \<Rightarrow> string list option
     \<Rightarrow> io_event list \<times> (py_error + log_result)" where
  "analyze_hbase_logs fs now set_order log_dir start_time end_time focus_areas target_nodes =
     (let (io1, log_files) = discover_log_files fs log_dir in
      case parse_time_window now start_time end_time of
        Inl e \<Rightarrow> (io1, Inl e)
      | Inr tw \<Rightarrow>
          (case filter_relevant_files log_files tw target_nodes of
             Inl e \<Rightarrow> (io1, Inl e)
           | Inr relevant_files \<Rightarrow>
               (let (io2, ld) = parse_log_files fs set_order relevant_files tw focus_areas;
                    analysis = analyze_parsed_logs ld
                in (io1 @ io2,
                    Inr \<lparr>lr_analysis_window = tw,
                         lr_files_processed = length relevant_files,
                         lr_total_entries = total_entries ld,
                         lr_events_summary = ar_events_summary analysis,
                         lr_anomalies = ar_anomalies analysis,
                         lr_performance_issues = ar_performance_issues analysis,
                         lr_error_summary = ar_error_summary analysis,
                         lr_summary = ar_summary analysis\<rparr>))))"

text \<open>
  An example: a log directory with the current log files of two nodes, one line each,
  enumerated in one order or in the other.
\<close>

definition example_read :: "string \<Rightarrow> string list \<times> bool" where
  "example_read path =
     (if path = ''hbase_log/regionserver-ip-10-0-0-1.log''
        then ([''2025-09-12 16:00:01,000 INFO handler=59\<newline>''], True)
      else if path = ''hbase_log/regionserver-ip-10-0-0-2.log''
        then ([''2025-09-12 16:00:02,000 INFO handler=61\<newline>''], True)
      else ([], False))"

definition example_fs :: "string list \<Rightarrow> filesystem" where
  "example_fs names =
     \<lparr>fs_exists = (\<lambda>path. path = ''hbase_log''),
      fs_walk = (\<lambda>path. if path = ''hbase_log'' then [(''hbase_log'', names)] else []),
      fs_read = example_read\<rparr>"

text \<open>A set iteration order enumerates the elements of the set, each once.\<close>

definition enumerates :: "(string list \<Rightarrow> string list) \<Rightarrow> bool" where
  "enumerates set_order =
     (\<forall>xs. distinct xs \<longrightarrow> distinct (set_order xs) \<and> set (set_order xs) = set xs)"




text \<open>
  For the proofs about \<open>handler_stats\<close>: one step of the loop that fills it, the values
  it holds for a node, and its invariant (the keys are distinct and no list is empty).
\<close>

definition stats_step :: "(string, int list) dict \<Rightarrow> event \<Rightarrow> (string, int list) dict" where
  "stats_step stats event =
     (case ev_value (ev_body event) of
        Some v \<Rightarrow> dict_append stats (ev_node event) v
      | None \<Rightarrow> stats)"






section \<open>Properties of the time window resolver\<close>

lemma mk_window_sel [simp]:
  "tw_start (mk_window a b) = a" "tw_end (mk_window a b) = b"
  by (simp_all add: mk_window_def)






section \<open>Properties of the error classification\<close>



section \<open>Properties of the log aggregator\<close>



lemma keys_dict_append:
  "map fst (dict_append d k v) = (if k \<in> set (map fst d) then map fst d else map fst d @ [k])"
  by (induction d k v rule: dict_append.induct) auto

lemma distinct_dict_append:
  "distinct (map fst d) \<Longrightarrow> distinct (map fst (dict_append d k v))"
  by (simp add: keys_dict_append)


lemma distinct_stats_step: "distinct (map fst d) \<Longrightarrow> distinct (map fst (stats_step d e))"
  by (simp add: stats_step_def distinct_dict_append split: option.splits)

lemma distinct_foldl_stats:
  "distinct (map fst d) \<Longrightarrow> distinct (map fst (foldl stats_step d evs))"
  by (induction evs arbitrary: d) (simp_all add: distinct_stats_step)


















section \<open>Properties of the rounding\<close>






















section \<open>Properties of the log analysis call\<close>


lemma parse_time_window_end_ignored:
  "\<not> truthy start_time \<Longrightarrow>
   parse_time_window now start_time end_time = parse_time_window now start_time None"
  by (simp add: parse_time_window_def)




section \<open>Reproducibility of the log analysis\<close>

lemma ps_nodes_parse_line_step [simp]:
  "ps_nodes (parse_line_step tw fa n st line) = ps_nodes st"
  by (simp add: parse_line_step_def split: option.splits prod.splits)

lemma ps_nodes_foldl_lines [simp]:
  "ps_nodes (foldl (parse_line_step tw fa n) st ls) = ps_nodes st"
  by (induction ls arbitrary: st) simp_all

lemma distinct_nodes_parse_file_step:
  "distinct (ps_nodes st) \<Longrightarrow> distinct (ps_nodes (parse_file_step fs tw fa st f))"
  by (simp add: parse_file_step_def Let_def)

lemma distinct_nodes_foldl_files:
  "distinct (ps_nodes st) \<Longrightarrow> distinct (ps_nodes (foldl (parse_file_step fs tw fa) st fs'))"
  by (induction fs' arbitrary: st) (simp_all add: distinct_nodes_parse_file_step)

lemma enumerates_length:
  assumes "enumerates so" "distinct xs"
  shows "length (so xs) = length xs"
proof -
  from assms have "distinct (so xs)" "set (so xs) = set xs"
    by (auto simp: enumerates_def)
  then show ?thesis
    using assms(2) distinct_card [of "so xs"] distinct_card [of xs] by simp
qed

lemma analyze_parsed_logs_nodes:
  assumes "total_entries a = total_entries b" "events a = events b" "errors a = errors b"
    and "length (nodes a) = length (nodes b)"
  shows "analyze_parsed_logs a = analyze_parsed_logs b"
  using assms by (simp add: analyze_parsed_logs_def generate_analysis_summary_def Let_def)

lemma parse_log_files_set_order:
  assumes "enumerates so1" "enumerates so2"
  shows "fst (parse_log_files fs so1 files tw fa) = fst (parse_log_files fs so2 files tw fa)"
    and "total_entries (snd (parse_log_files fs so1 files tw fa))
           = total_entries (snd (parse_log_files fs so2 files tw fa))"
    and "analyze_parsed_logs (snd (parse_log_files fs so1 files tw fa))
           = analyze_parsed_logs (snd (parse_log_files fs so2 files tw fa))"
proof -
  let ?st = "foldl (parse_file_step fs tw fa)
               \<lparr>ps_total_entries = 0, ps_events = [], ps_errors = [], ps_nodes = []\<rparr> files"
  have d: "distinct (ps_nodes ?st)"
    by (rule distinct_nodes_foldl_files) simp
  have "length (so1 (ps_nodes ?st)) = length (so2 (ps_nodes ?st))"
    using enumerates_length [OF assms(1) d] enumerates_length [OF assms(2) d] by simp
  then show "analyze_parsed_logs (snd (parse_log_files fs so1 files tw fa))
           = analyze_parsed_logs (snd (parse_log_files fs so2 files tw fa))"
    by (intro analyze_parsed_logs_nodes) (simp_all add: parse_log_files_def Let_def)
  show "fst (parse_log_files fs so1 files tw fa) = fst (parse_log_files fs so2 files tw fa)"
    by (simp add: parse_log_files_def Let_def)
  show "total_entries (snd (parse_log_files fs so1 files tw fa))
           = total_entries (snd (parse_log_files fs so2 files tw fa))"
    by (simp add: parse_log_files_def Let_def)
qed

lemma parse_time_window_clock:
  "truthy start_time \<Longrightarrow>
   parse_time_window now1 start_time end_time = parse_time_window now2 start_time end_time"
  by (simp add: parse_time_window_def)

text \<open>
  C9, as stated: two calls with identical inputs against unchanged files return
  identical documents, whatever the order in which the file system enumerates a
  directory.  This fails: the files are parsed in the order of enumeration, and the
  anomalies come out in the order in which the nodes were first seen.
\<close>

theorem enumeration_order_counterexample:
  "map_sum id lr_anomalies
     (snd (analyze_hbase_logs
             (example_fs [''regionserver-ip-10-0-0-1.log'', ''regionserver-ip-10-0-0-2.log''])
             63893376000000000 id ''hbase_log'' (Some ''2025-09-12 16:00:00'') None
             (Some [''handler'']) None))
     = Inr [Handler_saturation ''ip-10-0-0-1'' ''high'' 59 59,
            Handler_saturation ''ip-10-0-0-2'' ''critical'' 61 61]
   \<and> map_sum id lr_anomalies
     (snd (analyze_hbase_logs
             (example_fs [''regionserver-ip-10-0-0-2.log'', ''regionserver-ip-10-0-0-1.log''])
             63893376000000000 id ''hbase_log'' (Some ''2025-09-12 16:00:00'') None
             (Some [''handler'']) None))
     = Inr [Handler_saturation ''ip-10-0-0-2'' ''critical'' 61 61,
            Handler_saturation ''ip-10-0-0-1'' ''high'' 59 59]"
proof -
  let ?p1 = "''hbase_log/regionserver-ip-10-0-0-1.log''"
  let ?p2 = "''hbase_log/regionserver-ip-10-0-0-2.log''"
  let ?tw = "(mk_window 63893376000000000 63893379600000000)"
  let ?e1 = "\<lparr>ev_timestamp = 63893376001000000, ev_node = ''ip-10-0-0-1'',
              ev_body = Handler_usage 59, ev_line = ''2025-09-12 16:00:01,000 INFO handler=59''\<rparr>"
  let ?e2 = "\<lparr>ev_timestamp = 63893376002000000, ev_node = ''ip-10-0-0-2'',
              ev_body = Handler_usage 61, ev_line = ''2025-09-12 16:00:02,000 INFO handler=61''\<rparr>"
  have d12: "discover_log_files
               (example_fs [''regionserver-ip-10-0-0-1.log'', ''regionserver-ip-10-0-0-2.log''])
               ''hbase_log'' = ([Path_exists ''hbase_log'', Walk ''hbase_log''], [?p1, ?p2])"
    by code_simp
  have d21: "discover_log_files
               (example_fs [''regionserver-ip-10-0-0-2.log'', ''regionserver-ip-10-0-0-1.log''])
               ''hbase_log'' = ([Path_exists ''hbase_log'', Walk ''hbase_log''], [?p2, ?p1])"
    by code_simp
  have w: "parse_time_window 63893376000000000 (Some ''2025-09-12 16:00:00'') None = Inr ?tw"
    by code_simp
  have f12: "filter_relevant_files [?p1, ?p2] ?tw None = Inr [?p1, ?p2]"
    by code_simp
  have f21: "filter_relevant_files [?p2, ?p1] ?tw None = Inr [?p2, ?p1]"
    by code_simp
  have n1: "extract_node_name ?p1 = ''ip-10-0-0-1''" and n2: "extract_node_name ?p2 = ''ip-10-0-0-2''"
    by code_simp+
  have r1: "fst (example_read ?p1) = [''2025-09-12 16:00:01,000 INFO handler=59\<newline>'']"
    and r2: "fst (example_read ?p2) = [''2025-09-12 16:00:02,000 INFO handler=61\<newline>'']"
    by code_simp+
  have t1: "line_time ''2025-09-12 16:00:01,000 INFO handler=59\<newline>''
              = Some 63893376001000000"
    and t2: "line_time ''2025-09-12 16:00:02,000 INFO handler=61\<newline>''
              = Some 63893376002000000"
    by code_simp+
  have l1: "parse_log_line ''2025-09-12 16:00:01,000 INFO handler=59\<newline>''
              63893376001000000 ''ip-10-0-0-1'' (Some [''handler'']) = ([?e1], [])"
    and l2: "parse_log_line ''2025-09-12 16:00:02,000 INFO handler=61\<newline>''
              63893376002000000 ''ip-10-0-0-2'' (Some [''handler'']) = ([?e2], [])"
    by code_simp+
  have s1: "parse_file_step (example_fs names) ?tw (Some [''handler'']) st ?p1
              = st\<lparr>ps_nodes := List.insert ''ip-10-0-0-1'' (ps_nodes st),
                    ps_total_entries := ps_total_entries st + 1,
                    ps_events := ps_events st @ [?e1],
                    ps_errors := ps_errors st\<rparr>" for names st
    by (simp add: parse_file_step_def parse_line_step_def example_fs_def n1 r1 t1 l1 in_window_def
          Let_def)
  have s2: "parse_file_step (example_fs names) ?tw (Some [''handler'']) st ?p2
              = st\<lparr>ps_nodes := List.insert ''ip-10-0-0-2'' (ps_nodes st),
                    ps_total_entries := ps_total_entries st + 1,
                    ps_events := ps_events st @ [?e2],
                    ps_errors := ps_errors st\<rparr>" for names st
    by (simp add: parse_file_step_def parse_line_step_def example_fs_def n2 r2 t2 l2 in_window_def
          Let_def)
  have p12: "parse_log_files
               (example_fs [''regionserver-ip-10-0-0-1.log'', ''regionserver-ip-10-0-0-2.log''])
               id [?p1, ?p2] ?tw (Some [''handler''])
             = ([Open_file ?p1, Open_file ?p2],
                \<lparr>total_entries = 2, events = [?e1, ?e2], errors = [],
                 nodes = [''ip-10-0-0-2'', ''ip-10-0-0-1'']\<rparr>)"
    by (simp add: parse_log_files_def s1 s2)
  have p21: "parse_log_files
               (example_fs [''regionserver-ip-10-0-0-2.log'', ''regionserver-ip-10-0-0-1.log''])
               id [?p2, ?p1] ?tw (Some [''handler''])
             = ([Open_file ?p2, Open_file ?p1],
                \<lparr>total_entries = 2, events = [?e2, ?e1], errors = [],
                 nodes = [''ip-10-0-0-1'', ''ip-10-0-0-2'']\<rparr>)"
    by (simp add: parse_log_files_def s1 s2)
  have a12: "ar_anomalies (analyze_parsed_logs
                \<lparr>total_entries = 2, events = [?e1, ?e2], errors = [],
                 nodes = [''ip-10-0-0-2'', ''ip-10-0-0-1'']\<rparr>)
             = [Handler_saturation ''ip-10-0-0-1'' ''high'' 59 59,
                Handler_saturation ''ip-10-0-0-2'' ''critical'' 61 61]"
    by code_simp
  have a21: "ar_anomalies (analyze_parsed_logs
                \<lparr>total_entries = 2, events = [?e2, ?e1], errors = [],
                 nodes = [''ip-10-0-0-1'', ''ip-10-0-0-2'']\<rparr>)
             = [Handler_saturation ''ip-10-0-0-2'' ''critical'' 61 61,
                Handler_saturation ''ip-10-0-0-1'' ''high'' 59 59]"
    by code_simp
  show ?thesis
    by (simp add: analyze_hbase_logs_def d12 d21 w f12 f21 p12 p21 a12 a21 Let_def)
qed

text \<open>
  C9, amended: two calls with identical inputs, the start time among them, against
  the same files enumerated in the same order, make the same accesses and return
  identical documents (or end with the same exception), whatever the readings of the
  clock and whatever the orders in which the sets of node names are iterated.
\<close>

theorem analyze_hbase_logs_reproducible:
  assumes "truthy start_time" "enumerates set_order1" "enumerates set_order2"
  shows "analyze_hbase_logs fs now1 set_order1 log_dir start_time end_time focus_areas target_nodes
       = analyze_hbase_logs fs now2 set_order2 log_dir start_time end_time focus_areas target_nodes"
proof -
  have w: "parse_time_window now1 start_time end_time = parse_time_window now2 start_time end_time"
    using assms(1) by (rule parse_time_window_clock)
  obtain io1 files where d: "discover_log_files fs log_dir = (io1, files)"
    by (cases "discover_log_files fs log_dir")
  show ?thesis
  proof (cases "parse_time_window now2 start_time end_time")
    case (Inl e)
    then show ?thesis by (simp add: analyze_hbase_logs_def w d)
  next
    case tw: (Inr tw)
    show ?thesis
    proof (cases "filter_relevant_files files tw target_nodes")
      case (Inl e)
      then show ?thesis by (simp add: analyze_hbase_logs_def w d tw)
    next
      case rel: (Inr rel)
      obtain ioa lda where a: "parse_log_files fs set_order1 rel tw focus_areas = (ioa, lda)"
        by (cases "parse_log_files fs set_order1 rel tw focus_areas")
      obtain iob ldb where b: "parse_log_files fs set_order2 rel tw focus_areas = (iob, ldb)"
        by (cases "parse_log_files fs set_order2 rel tw focus_areas")
      have "ioa = iob" "total_entries lda = total_entries ldb"
        "analyze_parsed_logs lda = analyze_parsed_logs ldb"
        using parse_log_files_set_order [OF assms(2,3), of fs rel tw focus_areas] a b
        by simp_all
      then show ?thesis
        by (simp add: analyze_hbase_logs_def w d tw rel a b Let_def)
    qed
  qed
qed


theorem analyze_hbase_logs_reproducible_witness:
  "truthy (Some ''2025-09-12 16:00:00'') \<and> enumerates id \<and> enumerates rev
   \<and> analyze_hbase_logs (example_fs [''regionserver-ip-10-0-0-1.log'']) 63893376000000000 id
        ''hbase_log'' (Some ''2025-09-12 16:00:00'') None None None
     = analyze_hbase_logs (example_fs [''regionserver-ip-10-0-0-1.log'']) 63893379600000000 rev
        ''hbase_log'' (Some ''2025-09-12 16:00:00'') None None None"
proof -
  have h1: "truthy (Some ''2025-09-12 16:00:00'')" by simp
  have h2: "enumerates id" by (simp add: enumerates_def)
  have h3: "enumerates rev" by (simp add: enumerates_def)
  show ?thesis
    using h1 h2 h3 analyze_hbase_logs_reproducible [OF h1 h2 h3] by blast
qed

end
